theory Spec2Isabelle
  imports Complex_Main
begin

section \<open>Python built-ins used by the device endpoints\<close>

text \<open>
  A \<^typ>\<open>char\<close> stands for the Unicode code point of the same number, so a
  \<^typ>\<open>string\<close> is a Python \<open>str\<close> whose code points are all below 256.
  On these code points \<open>str.lower\<close> works character by character: it moves
  \<open>A..Z\<close> and the capital letters of the Latin-1 block (192..214, 216..222)
  up by 32 and leaves every other code point alone.
\<close>

definition lower_char :: "char \<Rightarrow> char" where
  "lower_char c =
     (let n = (of_char c :: nat)
      in if (65 \<le> n \<and> n \<le> 90) \<or> (192 \<le> n \<and> n \<le> 214) \<or> (216 \<le> n \<and> n \<le> 222)
         then char_of (n + 32) else c)"

definition lower :: "string \<Rightarrow> string" where
  "lower s = map lower_char s"

text \<open>
  \<open>data.split(":")\<close>: cut at every separator. The result is never empty
  (\<open>"".split(":")\<close> is \<open>[""]\<close>), and empty pieces are kept.
\<close>

fun str_split :: "char \<Rightarrow> string \<Rightarrow> string list" where
  "str_split sep [] = [[]]"
| "str_split sep (c # cs) =
     (if c = sep then [] # str_split sep cs
      else (case str_split sep cs of
              [] \<Rightarrow> [[c]]
            | p # ps \<Rightarrow> (c # p) # ps))"

text \<open>
  \<open>int(s)\<close> on a string: white space is stripped at both ends (tab, line feed,
  vertical tab, form feed, carriage return, space, and the code points 133 and 160),
  one sign may follow, then decimal digits in which single underscores may separate
  digits. More than 4300 digits are refused (the interpreter's default
  \<open>max_str_digits\<close>). Every refusal is a \<open>ValueError\<close>; the callers catch it
  with a bare \<open>except\<close>, so the model returns \<open>None\<close> for it.
\<close>

definition is_space :: "char \<Rightarrow> bool" where
  "is_space c =
     (let n = (of_char c :: nat)
      in (9 \<le> n \<and> n \<le> 13) \<or> n = 32 \<or> n = 133 \<or> n = 160)"

definition strip :: "string \<Rightarrow> string" where
  "strip s = rev (dropWhile is_space (rev (dropWhile is_space s)))"

definition digit_val :: "char \<Rightarrow> nat option" where
  "digit_val c =
     (let n = (of_char c :: nat)
      in if 48 \<le> n \<and> n \<le> 57 then Some (n - 48) else None)"

text \<open>The flag says whether the character just read was a digit.\<close>

fun parse_digits :: "bool \<Rightarrow> string \<Rightarrow> nat list option" where
  "parse_digits prev [] = (if prev then Some [] else None)"
| "parse_digits prev (c # cs) =
     (if c = CHR ''_'' then (if prev then parse_digits False cs else None)
      else (case digit_val c of
              None \<Rightarrow> None
            | Some d \<Rightarrow> map_option ((#) d) (parse_digits True cs)))"

definition max_str_digits :: nat where
  "max_str_digits = 4300"

definition digits_value :: "nat list \<Rightarrow> nat" where
  "digits_value ds = foldl (\<lambda>a d. 10 * a + d) 0 ds"

definition split_sign :: "string \<Rightarrow> bool \<times> string" where
  "split_sign t =
     (case t of
        [] \<Rightarrow> (False, t)
      | c # r \<Rightarrow> if c = CHR ''-'' then (True, r)
                else if c = CHR ''+'' then (False, r)
                else (False, t))"

definition py_int :: "string \<Rightarrow> int option" where
  "py_int s =
     (case split_sign (strip s) of
        (neg, body) \<Rightarrow>
          (case parse_digits False body of
             None \<Rightarrow> None
           | Some ds \<Rightarrow>
               if length ds > max_str_digits then None
               else Some (if neg then - int (digits_value ds) else int (digits_value ds))))"

text \<open>\<open>str(n)\<close> on an integer: the decimal digits, after a minus sign when negative.\<close>

fun digits_of :: "nat \<Rightarrow> string" where
  "digits_of n =
     (if n < 10 then [char_of (48 + n)]
      else digits_of (n div 10) @ [char_of (48 + n mod 10)])"

declare digits_of.simps [simp del]

definition py_str :: "int \<Rightarrow> string" where
  "py_str n = (if n < 0 then CHR ''-'' # digits_of (nat (- n)) else digits_of (nat n))"

text \<open>
  A Python \<open>float\<close>: a finite value (every finite double is a rational number) or one of
  the three special values. \<open>int(x)\<close> truncates a finite value towards zero and raises
  on the others.
\<close>

datatype pyfloat = Finite rat | PosInf | NegInf | NaN

datatype exn = SendError | OverflowError | ValueError

definition int_of_float :: "pyfloat \<Rightarrow> exn + int" where
  "int_of_float x =
     (case x of
        Finite q \<Rightarrow> Inr (if 0 \<le> q then \<lfloor>q\<rfloor> else \<lceil>q\<rceil>)
      | PosInf \<Rightarrow> Inl OverflowError
      | NegInf \<Rightarrow> Inl OverflowError
      | NaN \<Rightarrow> Inl ValueError)"

section \<open>Module state\<close>

text \<open>
  The module keeps two globals: the device store and \<open>unity_ws\<close>, the web socket
  of the controller (or \<open>None\<close>). With \<open>USE_REDIS\<close> unset the store is the
  dictionary \<open>device_states\<close>; with it set, the contents of the Redis database take
  its place, read and written through \<open>r.get\<close> and \<open>r.set\<close> (a Redis server that
  cannot be reached is outside the model).

  Two more fields record the environment: \<open>sent\<close> lists the texts that
  \<open>send_text\<close> has delivered, with the socket they went to, and \<open>broken\<close> holds
  the sockets on which \<open>send_text\<close> raises.
\<close>

type_synonym handle = nat

record state =
  USE_REDIS :: bool
  device_states :: "string \<rightharpoonup> string"
  unity_ws :: "handle option"
  sent :: "(handle \<times> string) list"
  broken :: "handle set"

definition init_state :: state where
  "init_state =
     \<lparr> USE_REDIS = False,
       device_states =
         [''lamp_status'' \<mapsto> ''on'',
          ''tv_status'' \<mapsto> ''off'',
          ''radio_status'' \<mapsto> ''off'',
          ''kitchenlight_status'' \<mapsto> ''on'',
          ''tv_volume'' \<mapsto> ''50'',
          ''radio_volume'' \<mapsto> ''6''],
       unity_ws = None,
       sent = [],
       broken = {} \<rparr>"

text \<open>The module state at start-up when Redis is used and the database holds \<open>db\<close>.\<close>

definition redis_state :: "(string \<rightharpoonup> string) \<Rightarrow> state" where
  "redis_state db =
     \<lparr> USE_REDIS = True, device_states = db, unity_ws = None, sent = [], broken = {} \<rparr>"

definition get_device_status :: "state \<Rightarrow> string \<Rightarrow> string" where
  "get_device_status st key =
     (if USE_REDIS st
      then (case device_states st key of
              None \<Rightarrow> ''off''
            | Some v \<Rightarrow> if v = [] then ''off'' else v)
      else (case device_states st key of
              None \<Rightarrow> ''off''
            | Some v \<Rightarrow> v))"

definition set_device_status :: "state \<Rightarrow> string \<Rightarrow> string \<Rightarrow> state" where
  "set_device_status st key v = st\<lparr>device_states := (device_states st)(key \<mapsto> v)\<rparr>"

definition send_text :: "handle \<Rightarrow> string \<Rightarrow> state \<Rightarrow> exn + state" where
  "send_text ws message st =
     (if ws \<in> broken st then Inl SendError
      else Inr (st\<lparr>sent := sent st @ [(ws, message)]\<rparr>))"

section \<open>Responses\<close>

text \<open>An endpoint returns a dictionary, kept here as the list of its items in order.\<close>

datatype json = JStr string | JInt int | JBool bool

type_synonym response = "(string \<times> json) list"

text \<open>
  An endpoint either returns a response or lets an exception escape; in both cases
  the module state is what the endpoint left behind.
\<close>

type_synonym outcome = "(exn + response) \<times> state"

definition not_connected :: response where
  "not_connected = [(''error'', JStr ''Unity client not connected'')]"

section \<open>Web socket endpoint\<close>

text \<open>
  \<open>websocket_endpoint\<close> in three pieces: what it does on accepting a socket, the body
  of its receive loop for one text, and its handler for \<open>WebSocketDisconnect\<close>.
\<close>

definition ws_accept :: "handle \<Rightarrow> state \<Rightarrow> state" where
  "ws_accept websocket st = st\<lparr>unity_ws := Some websocket\<rparr>"

definition ws_receive :: "string \<Rightarrow> state \<Rightarrow> state" where
  "ws_receive data st =
     (case str_split CHR '':'' data of
        [p0, p1, p2] \<Rightarrow>
          (let device = lower p0;
               prop = lower p1;
               v = lower p2;
               key = device @ ''_'' @ prop
           in set_device_status st key v)
      | _ \<Rightarrow> st)"

definition ws_disconnect :: "state \<Rightarrow> state" where
  "ws_disconnect st = st\<lparr>unity_ws := None\<rparr>"

section \<open>Device endpoints\<close>

text \<open>
  The four toggle endpoints differ only in the store key, the device name on the wire
  and the wording of the reply; likewise the four status endpoints.
\<close>

datatype device = Lamp | TV | Radio | KitchenLight

fun status_key :: "device \<Rightarrow> string" where
  "status_key Lamp = ''lamp_status''"
| "status_key TV = ''tv_status''"
| "status_key Radio = ''radio_status''"
| "status_key KitchenLight = ''kitchenlight_status''"

fun wire_name :: "device \<Rightarrow> string" where
  "wire_name Lamp = ''lamp''"
| "wire_name TV = ''tv''"
| "wire_name Radio = ''radio''"
| "wire_name KitchenLight = ''kitchenlight''"

fun already_text :: "device \<Rightarrow> string" where
  "already_text Lamp = ''Lamp is already ''"
| "already_text TV = ''TV is already ''"
| "already_text Radio = ''Radio is already ''"
| "already_text KitchenLight = ''Kitchen lights are already ''"

definition toggle :: "device \<Rightarrow> string \<Rightarrow> state \<Rightarrow> outcome" where
  "toggle d command_state st =
     (case unity_ws st of
        None \<Rightarrow> (Inr not_connected, st)
      | Some ws \<Rightarrow>
          (let desired_state = lower command_state;
               current_state = get_device_status st (status_key d)
           in if current_state = desired_state
              then (Inr [(''message'', JStr (already_text d @ desired_state @ ''.''))], st)
              else (let message = wire_name d @ '':status:'' @ command_state
                    in case send_text ws message st of
                         Inl e \<Rightarrow> (Inl e, st)
                       | Inr st1 \<Rightarrow>
                           (Inr [(''message'', JStr ''Command sent''),
                                 (''command'', JStr message)],
                            set_device_status st1 (status_key d) desired_state))))"

definition toggle_lamp :: "string \<Rightarrow> state \<Rightarrow> outcome" where
  "toggle_lamp = toggle Lamp"

definition toggle_tv :: "string \<Rightarrow> state \<Rightarrow> outcome" where
  "toggle_tv = toggle TV"

definition toggle_radio :: "string \<Rightarrow> state \<Rightarrow> outcome" where
  "toggle_radio = toggle Radio"

definition toggle_kitchen_light :: "string \<Rightarrow> state \<Rightarrow> outcome" where
  "toggle_kitchen_light = toggle KitchenLight"

definition get_status :: "device \<Rightarrow> state \<Rightarrow> outcome" where
  "get_status d st =
     (let s = get_device_status st (status_key d)
      in (Inr [(wire_name d, JBool (s = ''on''))], st))"

definition get_lamp_status :: "state \<Rightarrow> outcome" where
  "get_lamp_status = get_status Lamp"

definition get_tv_status :: "state \<Rightarrow> outcome" where
  "get_tv_status = get_status TV"

definition get_radio_status :: "state \<Rightarrow> outcome" where
  "get_radio_status = get_status Radio"

definition get_kitchen_light_status :: "state \<Rightarrow> outcome" where
  "get_kitchen_light_status = get_status KitchenLight"

text \<open>
  The two volume endpoints differ in the store key, the device name on the wire, the
  wording of the reply and the volume assumed when the stored one does not parse.
\<close>

datatype vol_device = VolTV | VolRadio

fun volume_key :: "vol_device \<Rightarrow> string" where
  "volume_key VolTV = ''tv_volume''"
| "volume_key VolRadio = ''radio_volume''"

fun volume_wire_name :: "vol_device \<Rightarrow> string" where
  "volume_wire_name VolTV = ''tv''"
| "volume_wire_name VolRadio = ''radio''"

fun volume_sent_text :: "vol_device \<Rightarrow> string" where
  "volume_sent_text VolTV = ''TV volume command sent''"
| "volume_sent_text VolRadio = ''Radio volume command sent''"

fun default_volume :: "vol_device \<Rightarrow> int" where
  "default_volume VolTV = 50"
| "default_volume VolRadio = 6"

text \<open>
  The stored volume as the endpoints read it: \<open>int\<close> of the stored text inside
  \<open>try\<close>, the device's default in the \<open>except\<close> branch.
\<close>

definition read_volume :: "vol_device \<Rightarrow> state \<Rightarrow> int" where
  "read_volume d st =
     (case py_int (get_device_status st (volume_key d)) of
        Some n \<Rightarrow> n
      | None \<Rightarrow> default_volume d)"

text \<open>
  The text of the volume command holds the change as an f-string renders a float.
  That rendering is not modelled: the rendered text \<open>change_text\<close> comes with the
  value \<open>change\<close> of \<open>command.change\<close>.
\<close>

definition change_volume :: "vol_device \<Rightarrow> pyfloat \<Rightarrow> string \<Rightarrow> state \<Rightarrow> outcome" where
  "change_volume d change change_text st =
     (case unity_ws st of
        None \<Rightarrow> (Inr not_connected, st)
      | Some ws \<Rightarrow>
          (let message = volume_wire_name d @ '':volume:'' @ change_text
           in case send_text ws message st of
                Inl e \<Rightarrow> (Inl e, st)
              | Inr st1 \<Rightarrow>
                  (let current_vol = read_volume d st1
                   in case int_of_float change of
                        Inl e \<Rightarrow> (Inl e, st1)
                      | Inr k \<Rightarrow>
                          (let new_vol = max 0 (min 100 (current_vol + k))
                           in (Inr [(''message'', JStr (volume_sent_text d)),
                                    (''command'', JStr message),
                                    (''new_volume'', JInt new_vol)],
                               set_device_status st1 (volume_key d) (py_str new_vol))))))"

definition change_tv_volume :: "pyfloat \<Rightarrow> string \<Rightarrow> state \<Rightarrow> outcome" where
  "change_tv_volume = change_volume VolTV"

definition change_radio_volume :: "pyfloat \<Rightarrow> string \<Rightarrow> state \<Rightarrow> outcome" where
  "change_radio_volume = change_volume VolRadio"

definition get_volume :: "vol_device \<Rightarrow> state \<Rightarrow> outcome" where
  "get_volume d st = (Inr [(volume_key d, JInt (read_volume d st))], st)"

definition get_tv_volume :: "state \<Rightarrow> outcome" where
  "get_tv_volume = get_volume VolTV"

definition get_radio_volume :: "state \<Rightarrow> outcome" where
  "get_radio_volume = get_volume VolRadio"

section \<open>Runs of the service\<close>

text \<open>
  What can happen to the service, one event at a time. The handlers run on one event
  loop, and each is taken here as one step, without another handler running between
  its \<open>await\<close> and its next statement. \<open>Break h\<close> is the environment's
  move: socket \<open>h\<close> stops working without its receive loop having seen
  \<open>WebSocketDisconnect\<close> (the loss is not noticed yet, or another exception ended the
  loop), so \<open>unity_ws\<close> keeps its value. A socket that disconnects is broken too.
\<close>

datatype event =
    Connect handle
  | Receive handle string
  | Disconnect handle
  | Break handle
  | Toggle device string
  | Volume vol_device pyfloat string
  | QueryStatus device
  | QueryVolume vol_device

fun step :: "state \<Rightarrow> event \<Rightarrow> state" where
  "step st (Connect h) = ws_accept h st"
| "step st (Receive h data) = ws_receive data st"
| "step st (Disconnect h) = ws_disconnect (st\<lparr>broken := insert h (broken st)\<rparr>)"
| "step st (Break h) = st\<lparr>broken := insert h (broken st)\<rparr>"
| "step st (Toggle d s) = snd (toggle d s st)"
| "step st (Volume d x t) = snd (change_volume d x t st)"
| "step st (QueryStatus d) = snd (get_status d st)"
| "step st (QueryVolume d) = snd (get_volume d st)"

definition run :: "state \<Rightarrow> event list \<Rightarrow> state" where
  "run st es = foldl step st es"

section \<open>Notions of the specification\<close>

text \<open>Truncation towards zero and clamping, as the specification words them.\<close>

definition trunc_zero :: "rat \<Rightarrow> int" where
  "trunc_zero q = (if q < 0 then - 1 else 1) * \<lfloor>\<bar>q\<bar>\<rfloor>"

definition clamp :: "int \<Rightarrow> int \<Rightarrow> int \<Rightarrow> int" where
  "clamp x lo hi = (if x < lo then lo else if hi < x then hi else x)"

text \<open>
  The volume a store holds for a device: the stored text parsed as an integer, and the
  device's default when there is no text or it does not parse.
\<close>

definition stored_volume :: "vol_device \<Rightarrow> state \<Rightarrow> int" where
  "stored_volume d st =
     (case device_states st (volume_key d) of
        None \<Rightarrow> default_volume d
      | Some t \<Rightarrow> (case py_int t of None \<Rightarrow> default_volume d | Some n \<Rightarrow> n))"

text \<open>The four status keys, and the invariant that each reads as on or off.\<close>

definition status_keys :: "string list" where
  "status_keys = map status_key [Lamp, TV, Radio, KitchenLight]"

definition status_on_off :: "state \<Rightarrow> bool" where
  "status_on_off st =
     (\<forall>k \<in> set status_keys. get_device_status st k = ''on'' \<or> get_device_status st k = ''off'')"

text \<open>
  Input as the source's comments expect it: a toggle asks for on or off, in any
  letter case, and a text from the controller that addresses a status key carries on
  or off, in any letter case.
\<close>

fun expected_input :: "event \<Rightarrow> bool" where
  "expected_input (Toggle d s) = (lower s = ''on'' \<or> lower s = ''off'')"
| "expected_input (Receive h data) =
     (case str_split CHR '':'' data of
        [p0, p1, p2] \<Rightarrow>
          lower p0 @ ''_'' @ lower p1 \<in> set status_keys \<longrightarrow>
            lower p2 = ''on'' \<or> lower p2 = ''off''
      | _ \<Rightarrow> True)"
| "expected_input (Connect h) = True"
| "expected_input (Disconnect h) = True"
| "expected_input (Break h) = True"
| "expected_input (Volume d x t) = True"
| "expected_input (QueryStatus d) = True"
| "expected_input (QueryVolume d) = True"

text \<open>Events that write \<open>unity_ws\<close>.\<close>

fun registry_event :: "event \<Rightarrow> bool" where
  "registry_event (Connect h) = True"
| "registry_event (Disconnect h) = True"
| "registry_event (Receive h data) = False"
| "registry_event (Break h) = False"
| "registry_event (Toggle d s) = False"
| "registry_event (Volume d x t) = False"
| "registry_event (QueryStatus d) = False"
| "registry_event (QueryVolume d) = False"

section \<open>Facts about the built-ins\<close>

text \<open>
  \<open>int(str(n))\<close> gives \<open>n\<close> back for a natural number within the digit limit:
  the text consists of digits only, so nothing is stripped, no sign is split off, and the
  digits are read back to the same value.
\<close>

lemma digit_val_char_of: "d < 10 \<Longrightarrow> digit_val (char_of (48 + d)) = Some d"
  by (simp add: digit_val_def)

lemma digit_val_underscore: "digit_val c = Some d \<Longrightarrow> c \<noteq> CHR ''_''"
  by (auto simp: digit_val_def Let_def split: if_splits)

lemma digit_val_not_space: "digit_val c = Some d \<Longrightarrow> \<not> is_space c"
  by (auto simp: digit_val_def is_space_def Let_def split: if_splits)

lemma digit_val_not_sign: "digit_val c = Some d \<Longrightarrow> c \<noteq> CHR ''-'' \<and> c \<noteq> CHR ''+''"
  by (auto simp: digit_val_def Let_def split: if_splits)

lemma parse_digits_all_digits:
  "\<forall>c \<in> set xs. digit_val c \<noteq> None \<Longrightarrow>
   parse_digits b xs = (if xs = [] \<and> \<not> b then None else Some (map (\<lambda>c. the (digit_val c)) xs))"
proof (induction xs arbitrary: b)
  case Nil
  then show ?case by simp
next
  case (Cons c cs)
  from Cons.prems obtain d where d: "digit_val c = Some d" by auto
  have tl: "\<forall>c \<in> set cs. digit_val c \<noteq> None" using Cons.prems by simp
  show ?case
    using d digit_val_underscore [OF d] Cons.IH [OF tl, of True] by simp
qed

lemma digits_of_digits: "c \<in> set (digits_of n) \<Longrightarrow> \<exists>d::nat. d < 10 \<and> c = char_of (48 + d)"
proof (induction n rule: digits_of.induct)
  case (1 n)
  show ?case
  proof (cases "n < 10")
    case True
    with "1.prems" show ?thesis by (auto simp: digits_of.simps [of n])
  next
    case False
    with "1.prems" have "c \<in> set (digits_of (n div 10)) \<or> c = char_of (48 + n mod 10)"
      by (auto simp: digits_of.simps [of n])
    then show ?thesis
    proof
      assume "c \<in> set (digits_of (n div 10))"
      with False "1.IH" show ?thesis by simp
    next
      assume "c = char_of (48 + n mod 10)"
      moreover have "n mod 10 < 10" by simp
      ultimately show ?thesis by blast
    qed
  qed
qed

lemma digits_of_digit_val: "c \<in> set (digits_of n) \<Longrightarrow> digit_val c \<noteq> None"
  using digits_of_digits [of c n] digit_val_char_of by auto

lemma digits_of_nonempty: "digits_of n \<noteq> []"
  by (subst digits_of.simps) simp

lemma digits_value_snoc: "digits_value (ds @ [d]) = 10 * digits_value ds + d"
  by (simp add: digits_value_def)

lemma digits_of_value: "digits_value (map (\<lambda>c. the (digit_val c)) (digits_of n)) = n"
proof (induction n rule: digits_of.induct)
  case (1 n)
  show ?case
  proof (cases "n < 10")
    case True
    then show ?thesis
      by (simp add: digits_of.simps [of n] digits_value_def digit_val_char_of)
  next
    case False
    have "n mod 10 < 10" by simp
    then have dv: "digit_val (char_of (48 + n mod 10)) = Some (n mod 10)"
      by (rule digit_val_char_of)
    from False "1.IH" have "digits_value (map (\<lambda>c. the (digit_val c)) (digits_of (n div 10))) = n div 10"
      by simp
    with False dv show ?thesis
      by (simp add: digits_of.simps [of n] digits_value_snoc)
  qed
qed

lemma strip_no_space:
  assumes "xs \<noteq> []" "\<not> is_space (hd xs)" "\<not> is_space (last xs)"
  shows "strip xs = xs"
proof -
  from assms have a: "dropWhile is_space xs = xs" by (cases xs) simp_all
  from assms have "rev xs \<noteq> []" "\<not> is_space (hd (rev xs))" by (simp_all add: hd_rev)
  then have "dropWhile is_space (rev xs) = rev xs" by (cases "rev xs") simp_all
  with a show ?thesis by (simp add: strip_def)
qed

lemma strip_digits_of: "strip (digits_of n) = digits_of n"
proof (rule strip_no_space)
  show ne: "digits_of n \<noteq> []" by (rule digits_of_nonempty)
  have "hd (digits_of n) \<in> set (digits_of n)" using ne by simp
  then show "\<not> is_space (hd (digits_of n))"
    using digits_of_digit_val digit_val_not_space by blast
  have "last (digits_of n) \<in> set (digits_of n)" using ne by simp
  then show "\<not> is_space (last (digits_of n))"
    using digits_of_digit_val digit_val_not_space by blast
qed

lemma split_sign_digits_of: "split_sign (digits_of n) = (False, digits_of n)"
proof (cases "digits_of n")
  case Nil
  then show ?thesis using digits_of_nonempty by simp
next
  case (Cons c cs)
  then have "c \<in> set (digits_of n)" by simp
  then obtain d where "digit_val c = Some d" using digits_of_digit_val by blast
  then have "c \<noteq> CHR ''-'' \<and> c \<noteq> CHR ''+''" by (rule digit_val_not_sign)
  with Cons show ?thesis by (simp add: split_sign_def)
qed

lemma length_digits_of_small: "n < 1000 \<Longrightarrow> length (digits_of n) \<le> 3"
  by (simp add: digits_of.simps [of n] digits_of.simps [of "n div 10"]
        digits_of.simps [of "n div 10 div 10"])

lemma py_int_py_str_nat:
  assumes "length (digits_of n) \<le> max_str_digits"
  shows "py_int (py_str (int n)) = Some (int n)"
proof -
  have p: "parse_digits False (digits_of n) = Some (map (\<lambda>c. the (digit_val c)) (digits_of n))"
    using parse_digits_all_digits [of "digits_of n" False] digits_of_digit_val digits_of_nonempty
    by simp
  show ?thesis
    using assms
    by (simp add: py_int_def py_str_def strip_digits_of split_sign_digits_of p digits_of_value)
qed

lemma py_int_py_str_small: "0 \<le> n \<Longrightarrow> n \<le> 100 \<Longrightarrow> py_int (py_str n) = Some n"
proof -
  assume a: "0 \<le> n" "n \<le> 100"
  then have "nat n < 1000" by simp
  then have "length (digits_of (nat n)) \<le> max_str_digits"
    using length_digits_of_small [of "nat n"] by (simp add: max_str_digits_def)
  from py_int_py_str_nat [OF this] a show ?thesis by simp
qed

lemma py_int_off: "py_int ''off'' = None"
  by code_simp

lemma py_int_empty: "py_int [] = None"
  by code_simp

lemma int_of_float_trunc_zero: "int_of_float (Finite q) = Inr (trunc_zero q)"
  by (simp add: int_of_float_def trunc_zero_def ceiling_def)

lemma max_min_clamp: "max 0 (min 100 x) = clamp x 0 100"
  by (simp add: clamp_def)

lemma clamp_range: "0 \<le> clamp x 0 100 \<and> clamp x 0 100 \<le> 100"
  by (simp add: clamp_def)

section \<open>Facts about the store\<close>

lemma read_volume_stored: "read_volume d st = stored_volume d st"
  by (simp add: read_volume_def stored_volume_def get_device_status_def py_int_off py_int_empty
      split: option.splits)

section \<open>Facts about lower case\<close>

lemma lower_append: "lower (xs @ ys) = lower xs @ lower ys"
  by (simp add: lower_def)

lemma lower_empty_iff: "lower s = [] \<longleftrightarrow> s = []"
  by (simp add: lower_def)

lemma lower_wire_name: "lower (wire_name d) = wire_name d"
proof -
  have "lower ''lamp'' = ''lamp''" "lower ''tv'' = ''tv''" "lower ''radio'' = ''radio''"
    "lower ''kitchenlight'' = ''kitchenlight''"
    by code_simp+
  then show ?thesis by (cases d) simp_all
qed

lemma lower_status_infix: "lower '':status:'' = '':status:''"
  by code_simp

section \<open>Facts about the endpoints\<close>

lemma get_set_device_status:
  "get_device_status (set_device_status st k v) k' =
     (if k' = k then (if USE_REDIS st \<and> v = [] then ''off'' else v)
      else get_device_status st k')"
  by (simp add: get_device_status_def set_device_status_def)

lemma get_device_status_sent [simp]:
  "get_device_status (st\<lparr>sent := x\<rparr>) k = get_device_status st k"
  by (simp add: get_device_status_def)

lemma unity_ws_set_device_status [simp]:
  "unity_ws (set_device_status st k v) = unity_ws st"
  by (simp add: set_device_status_def)

text \<open>
  The four ways a toggle can go: no controller, nothing to do, a send that fails, a
  send that goes through.
\<close>

lemma toggle_none: "unity_ws st = None \<Longrightarrow> toggle d s st = (Inr not_connected, st)"
  by (simp add: toggle_def)

lemma toggle_noop:
  "unity_ws st = Some ws \<Longrightarrow> get_device_status st (status_key d) = lower s \<Longrightarrow>
   toggle d s st = (Inr [(''message'', JStr (already_text d @ lower s @ ''.''))], st)"
  by (simp add: toggle_def Let_def)

lemma toggle_send_fails:
  "unity_ws st = Some ws \<Longrightarrow> ws \<in> broken st \<Longrightarrow> get_device_status st (status_key d) \<noteq> lower s \<Longrightarrow>
   toggle d s st = (Inl SendError, st)"
  by (simp add: toggle_def Let_def send_text_def)

lemma toggle_sends:
  "unity_ws st = Some ws \<Longrightarrow> ws \<notin> broken st \<Longrightarrow> get_device_status st (status_key d) \<noteq> lower s \<Longrightarrow>
   toggle d s st =
     (Inr [(''message'', JStr ''Command sent''), (''command'', JStr (wire_name d @ '':status:'' @ s))],
      set_device_status (st\<lparr>sent := sent st @ [(ws, wire_name d @ '':status:'' @ s)]\<rparr>)
        (status_key d) (lower s))"
  by (simp add: toggle_def Let_def send_text_def)

text \<open>
  After a toggle that was sent, the store reads as the state asked for, so the same
  toggle again finds nothing to do. With Redis an empty state is the exception: it is
  stored as the empty text, which reads back as off.
\<close>

lemma toggle_twice_sent:
  assumes "s \<noteq> [] \<or> \<not> USE_REDIS st"
  shows "length (sent (snd (toggle d s (snd (toggle d s st))))) \<le> Suc (length (sent st))"
proof (cases "unity_ws st")
  case None
  then show ?thesis by (simp add: toggle_none)
next
  case (Some ws)
  show ?thesis
  proof (cases "get_device_status st (status_key d) = lower s")
    case True
    with Some show ?thesis by (simp add: toggle_noop)
  next
    case differs: False
    show ?thesis
    proof (cases "ws \<in> broken st")
      case True
      with Some differs show ?thesis by (simp add: toggle_send_fails)
    next
      case False
      define st' where "st' = set_device_status
          (st\<lparr>sent := sent st @ [(ws, wire_name d @ '':status:'' @ s)]\<rparr>) (status_key d) (lower s)"
      have first: "snd (toggle d s st) = st'"
        using Some differs False by (simp add: toggle_sends st'_def)
      have ws': "unity_ws st' = Some ws"
        using Some by (simp add: st'_def set_device_status_def)
      have cur: "get_device_status st' (status_key d) = lower s"
        using assms by (auto simp: st'_def get_set_device_status lower_empty_iff)
      have "snd (toggle d s st') = st'"
        using toggle_noop [OF ws' cur] by simp
      moreover have "length (sent st') = Suc (length (sent st))"
        by (simp add: st'_def set_device_status_def)
      ultimately show ?thesis using first by simp
    qed
  qed
qed

text \<open>
  A volume change after the connection check: the send fails, or the change is not a
  finite number, or the new volume is stored.
\<close>

lemma change_volume_send_fails:
  "unity_ws st = Some ws \<Longrightarrow> ws \<in> broken st \<Longrightarrow> change_volume v x t st = (Inl SendError, st)"
  by (simp add: change_volume_def send_text_def)

lemma change_volume_raises:
  "unity_ws st = Some ws \<Longrightarrow> ws \<notin> broken st \<Longrightarrow> int_of_float x = Inl e \<Longrightarrow>
   change_volume v x t st =
     (Inl e, st\<lparr>sent := sent st @ [(ws, volume_wire_name v @ '':volume:'' @ t)]\<rparr>)"
  by (simp add: change_volume_def send_text_def Let_def)

lemma change_volume_stores:
  "unity_ws st = Some ws \<Longrightarrow> ws \<notin> broken st \<Longrightarrow> int_of_float x = Inr k \<Longrightarrow>
   snd (change_volume v x t st) =
     set_device_status (st\<lparr>sent := sent st @ [(ws, volume_wire_name v @ '':volume:'' @ t)]\<rparr>)
       (volume_key v)
       (py_str (max 0 (min 100 (read_volume v
          (st\<lparr>sent := sent st @ [(ws, volume_wire_name v @ '':volume:'' @ t)]\<rparr>) + k))))"
  by (simp add: change_volume_def send_text_def Let_def)

section \<open>Facts about runs\<close>

lemma run_append: "run st (es @ es') = run (run st es) es'"
  by (simp add: run_def)

lemma run_snoc: "run st (es @ [e]) = step (run st es) e"
  by (simp add: run_def)

lemma unity_ws_ws_receive: "unity_ws (ws_receive data st) = unity_ws st"
  by (simp add: ws_receive_def Let_def split: list.splits)

lemma unity_ws_toggle: "unity_ws (snd (toggle d s st)) = unity_ws st"
  by (simp add: toggle_def Let_def send_text_def split: option.splits)

lemma unity_ws_change_volume: "unity_ws (snd (change_volume d x t st)) = unity_ws st"
  by (simp add: change_volume_def Let_def send_text_def split: option.splits sum.splits)

lemma unity_ws_step: "\<not> registry_event e \<Longrightarrow> unity_ws (step st e) = unity_ws st"
  by (cases e)
     (simp_all add: unity_ws_ws_receive unity_ws_toggle unity_ws_change_volume
        get_status_def get_volume_def)

lemma unity_ws_run:
  "\<forall>e \<in> set es. \<not> registry_event e \<Longrightarrow> unity_ws (run st es) = unity_ws st"
proof (induction es arbitrary: st)
  case Nil
  then show ?case by (simp add: run_def)
next
  case (Cons e es)
  have "run st (e # es) = run (step st e) es" by (simp add: run_def)
  with Cons show ?case by (simp add: unity_ws_step)
qed

section \<open>Status keys stay on or off under expected input\<close>

lemma status_key_in_keys: "status_key d \<in> set status_keys"
  by (cases d) (simp_all add: status_keys_def)

lemma volume_key_not_status: "volume_key v \<notin> set status_keys"
  by (cases v) (simp_all add: status_keys_def)

lemma status_on_off_same_store:
  "device_states st1 = device_states st \<Longrightarrow> USE_REDIS st1 = USE_REDIS st \<Longrightarrow>
   status_on_off st1 = status_on_off st"
  by (simp add: status_on_off_def get_device_status_def)

lemma status_on_off_set:
  assumes "status_on_off st" and "k \<in> set status_keys \<longrightarrow> v = ''on'' \<or> v = ''off''"
  shows "status_on_off (set_device_status st k v)"
  unfolding status_on_off_def
proof
  fix k' assume k': "k' \<in> set status_keys"
  show "get_device_status (set_device_status st k v) k' = ''on''
      \<or> get_device_status (set_device_status st k v) k' = ''off''"
  proof (cases "k' = k")
    case True
    with k' assms(2) show ?thesis by (auto simp: get_set_device_status)
  next
    case False
    with k' assms(1) show ?thesis by (simp add: get_set_device_status status_on_off_def)
  qed
qed

lemma status_on_off_ws_receive:
  assumes "status_on_off st" and "expected_input (Receive h data)"
  shows "status_on_off (ws_receive data st)"
proof (cases "\<exists>p0 p1 p2. str_split CHR '':'' data = [p0, p1, p2]")
  case True
  then obtain p0 p1 p2 where p: "str_split CHR '':'' data = [p0, p1, p2]" by blast
  with assms(2) have "lower p0 @ ''_'' @ lower p1 \<in> set status_keys \<longrightarrow>
      lower p2 = ''on'' \<or> lower p2 = ''off''"
    by simp
  from status_on_off_set [OF assms(1) this] p show ?thesis
    by (simp add: ws_receive_def Let_def)
next
  case False
  then have "ws_receive data st = st"
    by (auto simp: ws_receive_def split: list.splits)
  with assms(1) show ?thesis by simp
qed

lemma status_on_off_toggle:
  assumes "status_on_off st" and "lower s = ''on'' \<or> lower s = ''off''"
  shows "status_on_off (snd (toggle d s st))"
proof (cases "unity_ws st")
  case None
  with assms(1) show ?thesis by (simp add: toggle_none)
next
  case (Some ws)
  show ?thesis
  proof (cases "get_device_status st (status_key d) = lower s")
    case True
    with Some assms(1) show ?thesis by (simp add: toggle_noop)
  next
    case differs: False
    show ?thesis
    proof (cases "ws \<in> broken st")
      case True
      with Some differs assms(1) show ?thesis by (simp add: toggle_send_fails)
    next
      case False
      have "status_on_off (st\<lparr>sent := sent st @ [(ws, wire_name d @ '':status:'' @ s)]\<rparr>)"
        using assms(1)
          status_on_off_same_store
            [of "st\<lparr>sent := sent st @ [(ws, wire_name d @ '':status:'' @ s)]\<rparr>" st]
        by simp
      from status_on_off_set [OF this, of "status_key d" "lower s"] assms(2)
      show ?thesis using Some differs False by (simp add: toggle_sends)
    qed
  qed
qed

lemma status_on_off_change_volume:
  assumes "status_on_off st"
  shows "status_on_off (snd (change_volume v x t st))"
proof (cases "unity_ws st")
  case None
  with assms show ?thesis by (simp add: change_volume_def)
next
  case (Some ws)
  show ?thesis
  proof (cases "ws \<in> broken st")
    case True
    with Some assms show ?thesis by (simp add: change_volume_send_fails)
  next
    case False
    define st1 where "st1 = st\<lparr>sent := sent st @ [(ws, volume_wire_name v @ '':volume:'' @ t)]\<rparr>"
    have st1: "status_on_off st1"
      using assms status_on_off_same_store [of st1 st] by (simp add: st1_def)
    show ?thesis
    proof (cases "int_of_float x")
      case (Inl e)
      from change_volume_raises [OF Some False Inl, of v t] st1 show ?thesis
        by (simp add: st1_def)
    next
      case (Inr k)
      from change_volume_stores [OF Some False Inr, of v t]
        status_on_off_set [OF st1, of "volume_key v"]
      show ?thesis by (simp add: st1_def volume_key_not_status)
    qed
  qed
qed

lemma status_on_off_step:
  assumes "status_on_off st" and "expected_input e"
  shows "status_on_off (step st e)"
proof (cases e)
  case (Connect h)
  with assms(1) status_on_off_same_store [of "ws_accept h st" st] show ?thesis
    by (simp add: ws_accept_def)
next
  case (Receive h data)
  with assms show ?thesis by (simp add: status_on_off_ws_receive)
next
  case (Disconnect h)
  with assms(1)
    status_on_off_same_store [of "ws_disconnect (st\<lparr>broken := insert h (broken st)\<rparr>)" st]
  show ?thesis by (simp add: ws_disconnect_def)
next
  case (Break h)
  with assms(1) status_on_off_same_store [of "st\<lparr>broken := insert h (broken st)\<rparr>" st]
  show ?thesis by simp
next
  case (Toggle d s)
  with assms show ?thesis by (simp add: status_on_off_toggle)
next
  case (Volume v x t)
  with assms(1) show ?thesis by (simp add: status_on_off_change_volume)
next
  case (QueryStatus d)
  with assms(1) show ?thesis by (simp add: get_status_def)
next
  case (QueryVolume v)
  with assms(1) show ?thesis by (simp add: get_volume_def)
qed

lemma status_on_off_run:
  "status_on_off st \<Longrightarrow> \<forall>e \<in> set es. expected_input e \<Longrightarrow> status_on_off (run st es)"
proof (induction es arbitrary: st)
  case Nil
  then show ?case by (simp add: run_def)
next
  case (Cons e es)
  have "run st (e # es) = run (step st e) es" by (simp add: run_def)
  with Cons show ?case by (simp add: status_on_off_step)
qed

lemma status_on_off_init: "status_on_off init_state"
  by code_simp

section \<open>Stored values are in lower case\<close>

text \<open>
  Whatever the endpoints write is in lower case: a lower-cased text, or the decimal
  text of a number. The in-memory store starts in lower case, so it stays so.
\<close>

lemma lower_char_idem: "lower_char (lower_char c) = lower_char c"
  by (auto simp: lower_char_def Let_def)

lemma lower_idem: "lower (lower s) = lower s"
  by (simp add: lower_def lower_char_idem)

lemma lower_char_digit: "d < 10 \<Longrightarrow> lower_char (char_of (48 + d :: nat)) = char_of (48 + d)"
  by (simp add: lower_char_def Let_def)

lemma lower_digits_of: "lower (digits_of n) = digits_of n"
proof -
  have "\<forall>c \<in> set (digits_of n). lower_char c = c"
    using digits_of_digits [of _ n] lower_char_digit by auto
  then show ?thesis by (simp add: lower_def map_idI)
qed

lemma lower_py_str: "lower (py_str n) = py_str n"
proof -
  have "lower_char CHR ''-'' = CHR ''-''" by code_simp
  then show ?thesis
    using lower_digits_of by (simp add: py_str_def lower_def)
qed

lemma stored_lower_step:
  assumes "\<forall>k v. device_states st k = Some v \<longrightarrow> lower v = v"
  shows "\<forall>k v. device_states (step st e) k = Some v \<longrightarrow> lower v = v"
proof (cases e)
  case (Connect h)
  with assms show ?thesis by (simp add: ws_accept_def)
next
  case (Receive h data)
  with assms show ?thesis
    by (auto simp: ws_receive_def set_device_status_def Let_def lower_idem split: list.splits)
next
  case (Disconnect h)
  with assms show ?thesis by (simp add: ws_disconnect_def)
next
  case (Break h)
  with assms show ?thesis by simp
next
  case (Toggle d s)
  with assms show ?thesis
    by (auto simp: toggle_def send_text_def set_device_status_def Let_def lower_idem
        split: option.splits if_splits)
next
  case (Volume v x t)
  with assms show ?thesis
    by (auto simp: change_volume_def send_text_def set_device_status_def Let_def lower_py_str
        split: option.splits sum.splits if_splits)
next
  case (QueryStatus d)
  with assms show ?thesis by (simp add: get_status_def)
next
  case (QueryVolume v)
  with assms show ?thesis by (simp add: get_volume_def)
qed

lemma stored_lower_run:
  "\<forall>k v. device_states st k = Some v \<longrightarrow> lower v = v \<Longrightarrow>
   \<forall>k v. device_states (run st es) k = Some v \<longrightarrow> lower v = v"
proof (induction es arbitrary: st)
  case Nil
  then show ?case by (simp add: run_def)
next
  case (Cons e es)
  have "run st (e # es) = run (step st e) es" by (simp add: run_def)
  with Cons.IH [OF stored_lower_step [OF Cons.prems, of e]] show ?case by simp
qed

lemma stored_lower_init: "device_states init_state k = Some v \<Longrightarrow> lower v = v"
proof -
  have l: "lower ''on'' = ''on''" "lower ''off'' = ''off''" "lower ''50'' = ''50''"
    "lower ''6'' = ''6''"
    by code_simp+
  assume "device_states init_state k = Some v"
  then show ?thesis
    using l by (auto simp: init_state_def split: if_splits)
qed

lemma in_memory_status_lower:
  "lower (get_device_status (run init_state es) k) = get_device_status (run init_state es) k"
proof -
  have a: "\<forall>k v. device_states (run init_state es) k = Some v \<longrightarrow> lower v = v"
    using stored_lower_run [of init_state es] stored_lower_init by blast
  have "lower ''off'' = ''off''" by code_simp
  with a show ?thesis
    by (auto simp: get_device_status_def split: option.splits)
qed

section \<open>Volume changes\<close>

text \<open>
  C1, as the code has it. A volume change on tv or radio by a finite number, made while
  a controller is registered and its socket takes the text, stores the text of
  \<open>clamp (current + truncate delta) 0 100\<close>, where \<open>current\<close> is the stored text
  parsed as an integer, or the device's default (50 for tv, 6 for radio) when there is
  no parsable text; it returns that number, and the volume stored afterwards lies
  between 0 and 100.
\<close>

theorem change_volume_clamps:
  assumes "unity_ws st = Some ws" and "ws \<notin> broken st"
  shows "let new = clamp (stored_volume d st + trunc_zero q) 0 100;
             message = volume_wire_name d @ '':volume:'' @ t;
             res = change_volume d (Finite q) t st
         in fst res = Inr [(''message'', JStr (volume_sent_text d)),
                           (''command'', JStr message),
                           (''new_volume'', JInt new)]
          \<and> device_states (snd res) (volume_key d) = Some (py_str new)
          \<and> stored_volume d (snd res) = new
          \<and> 0 \<le> stored_volume d (snd res) \<and> stored_volume d (snd res) \<le> 100"
proof -
  define new where "new = clamp (stored_volume d st + trunc_zero q) 0 100"
  define message where "message = volume_wire_name d @ '':volume:'' @ t"
  define st1 where "st1 = st\<lparr>sent := sent st @ [(ws, message)]\<rparr>"
  have sok: "send_text ws message st = Inr st1"
    using assms by (simp add: send_text_def st1_def)
  have rv: "read_volume d st1 = stored_volume d st"
    by (simp add: read_volume_stored) (simp add: stored_volume_def st1_def)
  have res: "change_volume d (Finite q) t st =
      (Inr [(''message'', JStr (volume_sent_text d)), (''command'', JStr message),
            (''new_volume'', JInt new)],
       set_device_status st1 (volume_key d) (py_str new))"
    using assms(1) sok [unfolded message_def] rv
    by (simp add: change_volume_def message_def int_of_float_trunc_zero
        max_min_clamp new_def Let_def)
  have rng: "0 \<le> new \<and> new \<le> 100"
    unfolding new_def by (rule clamp_range)
  then have rt: "py_int (py_str new) = Some new"
    by (simp add: py_int_py_str_small)
  have sv: "stored_volume d (set_device_status st1 (volume_key d) (py_str new)) = new"
    by (simp add: stored_volume_def set_device_status_def rt)
  show ?thesis
    using res rng sv
    by (simp add: Let_def new_def message_def set_device_status_def)
qed

text \<open>
  The specification's example: with 95 stored and a controller connected, a change of
  +50 stores 100.
\<close>

theorem change_volume_clamps_witness:
  "unity_ws (run init_state [Connect 1, Receive 1 ''tv:volume:95'']) = Some 1
   \<and> 1 \<notin> broken (run init_state [Connect 1, Receive 1 ''tv:volume:95''])
   \<and> fst (change_volume VolTV (Finite 50) ''50.0''
            (run init_state [Connect 1, Receive 1 ''tv:volume:95'']))
       = Inr [(''message'', JStr ''TV volume command sent''),
              (''command'', JStr ''tv:volume:50.0''),
              (''new_volume'', JInt 100)]
   \<and> device_states (snd (change_volume VolTV (Finite 50) ''50.0''
            (run init_state [Connect 1, Receive 1 ''tv:volume:95''])))
         ''tv_volume'' = Some ''100''"
proof -
  define st where "st = run init_state [Connect 1, Receive 1 ''tv:volume:95'']"
  have h1: "unity_ws st = Some 1" unfolding st_def by code_simp
  have h2: "1 \<notin> broken st" unfolding st_def by code_simp
  have v: "clamp (stored_volume VolTV st + trunc_zero 50) 0 100 = 100"
    unfolding st_def by code_simp
  have s: "py_str 100 = ''100''" by code_simp
  from change_volume_clamps [OF h1 h2, of VolTV 50 "''50.0''"]
  show ?thesis
    unfolding st_def [symmetric] using h1 h2 by (simp add: Let_def v s)
qed

text \<open>
  C1 as stated fails for a change that is not a finite number, which a float can be:
  the command is sent, then \<open>int\<close> of the change raises outside the \<open>try\<close>, so
  nothing is returned or stored, and a stored volume of -10 stays as it is.
\<close>

theorem change_volume_not_finite_counterexample:
  "unity_ws (run init_state [Connect 1, Receive 1 ''tv:volume:-10'']) = Some 1
   \<and> 1 \<notin> broken (run init_state [Connect 1, Receive 1 ''tv:volume:-10''])
   \<and> fst (change_volume VolTV PosInf ''inf''
            (run init_state [Connect 1, Receive 1 ''tv:volume:-10''])) = Inl OverflowError
   \<and> sent (snd (change_volume VolTV PosInf ''inf''
            (run init_state [Connect 1, Receive 1 ''tv:volume:-10''])))
       = [(1, ''tv:volume:inf'')]
   \<and> device_states (snd (change_volume VolTV PosInf ''inf''
            (run init_state [Connect 1, Receive 1 ''tv:volume:-10'']))) ''tv_volume''
       = Some ''-10''
   \<and> stored_volume VolTV (snd (change_volume VolTV PosInf ''inf''
            (run init_state [Connect 1, Receive 1 ''tv:volume:-10'']))) = - 10
   \<and> fst (change_volume VolTV NaN ''nan''
            (run init_state [Connect 1, Receive 1 ''tv:volume:-10''])) = Inl ValueError"
  by code_simp

section \<open>Commands without a controller\<close>

text \<open>
  C2. With no controller registered, every toggle and every volume change returns the
  error response \<open>Unity client not connected\<close> as an ordinary result, and leaves the
  whole module state as it was: the store is unchanged and nothing is sent.
\<close>

theorem commands_need_connection:
  assumes "unity_ws st = None"
  shows "toggle d s st = (Inr [(''error'', JStr ''Unity client not connected'')], st)
       \<and> change_volume v x t st = (Inr [(''error'', JStr ''Unity client not connected'')], st)"
  using assms by (simp add: toggle_def change_volume_def not_connected_def)

theorem commands_need_connection_witness:
  "unity_ws init_state = None
   \<and> toggle Lamp ''off'' init_state
       = (Inr [(''error'', JStr ''Unity client not connected'')], init_state)
   \<and> sent (snd (toggle Lamp ''off'' init_state)) = []
   \<and> device_states (snd (toggle Lamp ''off'' init_state)) ''lamp_status'' = Some ''on''
   \<and> change_volume VolRadio (Finite (- 10)) ''-10.0'' init_state
       = (Inr [(''error'', JStr ''Unity client not connected'')], init_state)"
proof -
  have h: "unity_ws init_state = None" by (simp add: init_state_def)
  from commands_need_connection [OF h, of Lamp "''off''" VolRadio "Finite (- 10)" "''-10.0''"]
  show ?thesis using h by (simp add: init_state_def)
qed

section \<open>Toggling to the state already stored\<close>

text \<open>
  C3, as the code has it. With a controller registered, a toggle whose lower-cased
  desired state equals the status read from the store, taken as it is stored, answers
  that the device is already in that state, sends nothing and leaves the module state
  unchanged. The stored status itself is not case-folded: comparing without regard to
  case gives the same answer when the stored status is in lower case, as it is in every
  state the in-memory store can reach.
  Two identical toggles in a row put at most one text on the wire; with Redis this
  needs a non-empty desired state.
\<close>

theorem toggle_same_state_noop:
  "(unity_ws st = Some ws \<and> get_device_status st (status_key d) = lower s \<longrightarrow>
      toggle d s st = (Inr [(''message'', JStr (already_text d @ lower s @ ''.''))], st))
   \<and> (unity_ws st = Some ws
        \<and> lower (get_device_status st (status_key d)) = get_device_status st (status_key d)
        \<and> lower (get_device_status st (status_key d)) = lower s \<longrightarrow>
      toggle d s st = (Inr [(''message'', JStr (already_text d @ lower s @ ''.''))], st))
   \<and> (unity_ws (run init_state es) = Some ws
        \<and> lower (get_device_status (run init_state es) (status_key d)) = lower s \<longrightarrow>
      toggle d s (run init_state es)
        = (Inr [(''message'', JStr (already_text d @ lower s @ ''.''))], run init_state es))
   \<and> (s \<noteq> [] \<or> \<not> USE_REDIS st \<longrightarrow>
      length (sent (snd (toggle d s (snd (toggle d s st))))) \<le> Suc (length (sent st)))"
proof -
  have a: "unity_ws st = Some ws \<and> get_device_status st (status_key d) = lower s \<longrightarrow>
      toggle d s st = (Inr [(''message'', JStr (already_text d @ lower s @ ''.''))], st)"
    using toggle_noop by blast
  have b: "unity_ws st = Some ws
        \<and> lower (get_device_status st (status_key d)) = get_device_status st (status_key d)
        \<and> lower (get_device_status st (status_key d)) = lower s \<longrightarrow>
      toggle d s st = (Inr [(''message'', JStr (already_text d @ lower s @ ''.''))], st)"
    using toggle_noop [of st ws d s] by metis
  have c: "unity_ws (run init_state es) = Some ws
        \<and> lower (get_device_status (run init_state es) (status_key d)) = lower s \<longrightarrow>
      toggle d s (run init_state es)
        = (Inr [(''message'', JStr (already_text d @ lower s @ ''.''))], run init_state es)"
    using toggle_noop [of "run init_state es" ws d s]
      in_memory_status_lower [of es "status_key d"]
    by metis
  have e: "s \<noteq> [] \<or> \<not> USE_REDIS st \<longrightarrow>
      length (sent (snd (toggle d s (snd (toggle d s st))))) \<le> Suc (length (sent st))"
    using toggle_twice_sent by blast
  from a b c e show ?thesis by blast
qed

theorem toggle_same_state_noop_witness:
  "unity_ws (run init_state [Connect 1]) = Some 1
   \<and> get_device_status (run init_state [Connect 1]) (status_key TV) = lower ''OFF''
   \<and> toggle TV ''OFF'' (run init_state [Connect 1])
       = (Inr [(''message'', JStr ''TV is already off.'')], run init_state [Connect 1])
   \<and> \<not> USE_REDIS (run init_state [Connect 1])
   \<and> length (sent (snd (toggle TV ''OFF'' (snd (toggle TV ''OFF'' (run init_state [Connect 1]))))))
       \<le> Suc (length (sent (run init_state [Connect 1])))"
proof -
  define st where "st = run init_state [Connect 1]"
  have h1: "unity_ws st = Some 1" unfolding st_def by code_simp
  have h2: "get_device_status st (status_key TV) = lower ''OFF''" unfolding st_def by code_simp
  have h3: "\<not> USE_REDIS st" unfolding st_def by code_simp
  have l: "lower ''OFF'' = ''off''" by code_simp
  from toggle_same_state_noop [of st 1 TV "''OFF''" "[]"] h1 h2 h3
  show ?thesis unfolding st_def [symmetric] by (simp add: l)
qed

text \<open>
  C3 as stated fails where the store holds a status that is not in lower case, which
  a Redis database written from elsewhere may: with \<open>ON\<close> stored, a toggle to
  \<open>on\<close> matches it without regard to case, and still a command is sent and the store
  is rewritten.
\<close>

theorem toggle_noop_counterexample:
  "unity_ws (run (redis_state [''lamp_status'' \<mapsto> ''ON'']) [Connect 1]) = Some 1
   \<and> lower (get_device_status (run (redis_state [''lamp_status'' \<mapsto> ''ON'']) [Connect 1])
              ''lamp_status'') = lower ''on''
   \<and> fst (toggle Lamp ''on'' (run (redis_state [''lamp_status'' \<mapsto> ''ON'']) [Connect 1]))
       = Inr [(''message'', JStr ''Command sent''), (''command'', JStr ''lamp:status:on'')]
   \<and> sent (run (redis_state [''lamp_status'' \<mapsto> ''ON'']) [Connect 1]) = []
   \<and> sent (snd (toggle Lamp ''on'' (run (redis_state [''lamp_status'' \<mapsto> ''ON'']) [Connect 1])))
       = [(1, ''lamp:status:on'')]
   \<and> device_states (run (redis_state [''lamp_status'' \<mapsto> ''ON'']) [Connect 1]) ''lamp_status''
       = Some ''ON''
   \<and> device_states (snd (toggle Lamp ''on''
          (run (redis_state [''lamp_status'' \<mapsto> ''ON'']) [Connect 1]))) ''lamp_status''
       = Some ''on''"
  by code_simp

section \<open>The registered socket\<close>

text \<open>
  C4, as the code has it. After any run, accepting a socket registers it, and the
  disconnect of any socket empties the registry, also when another socket has been
  registered since; no other event touches the registry.
\<close>

theorem registry_last_writer:
  "unity_ws (run st (es @ [Connect h])) = Some h
   \<and> unity_ws (run st (es @ [Disconnect h])) = None
   \<and> ((\<forall>e \<in> set es'. \<not> registry_event e) \<longrightarrow>
        unity_ws (run st (es @ es')) = unity_ws (run st es))"
proof -
  have a: "unity_ws (run st (es @ [Connect h])) = Some h"
    by (simp add: run_snoc ws_accept_def)
  have b: "unity_ws (run st (es @ [Disconnect h])) = None"
    by (simp add: run_snoc ws_disconnect_def)
  have c: "(\<forall>e \<in> set es'. \<not> registry_event e) \<longrightarrow>
        unity_ws (run st (es @ es')) = unity_ws (run st es)"
    by (simp add: run_append unity_ws_run)
  from a b c show ?thesis by blast
qed

theorem registry_last_writer_witness:
  "\<not> registry_event (Toggle Lamp ''off'')
   \<and> \<not> registry_event (Receive 2 ''tv:status:on'')
   \<and> unity_ws (run init_state ([Connect 1, Connect 2] @ [Toggle Lamp ''off'', Receive 2 ''tv:status:on'']))
       = unity_ws (run init_state [Connect 1, Connect 2])
   \<and> unity_ws (run init_state ([Connect 1] @ [Connect 2])) = Some 2
   \<and> unity_ws (run init_state ([Connect 1, Connect 2] @ [Disconnect 1])) = None"
proof -
  have h: "\<forall>e \<in> set [Toggle Lamp ''off'', Receive 2 ''tv:status:on'']. \<not> registry_event e"
    by simp
  from registry_last_writer [of init_state "[Connect 1, Connect 2]" 1 "[Toggle Lamp ''off'', Receive 2 ''tv:status:on'']"]
    registry_last_writer [of init_state "[Connect 1]" 2 "[]"] h
  show ?thesis by simp
qed

text \<open>
  C4 as stated fails: socket 2 registers while socket 1 is registered, then socket 1
  disconnects, and the registry is empty instead of holding socket 2.
\<close>

theorem stale_disconnect_counterexample:
  "unity_ws (run init_state [Connect 1, Connect 2]) = Some 2
   \<and> unity_ws (run init_state [Connect 1, Connect 2, Disconnect 1]) = None
   \<and> unity_ws (run init_state [Connect 1, Connect 2, Disconnect 1]) \<noteq> Some 2"
  by code_simp

section \<open>Defaults\<close>

text \<open>
  C5, as the code has it. A volume key that is absent reads as 50 for tv and 6 for
  radio, and an absent status key reads as off. In the initial state of the in-memory
  store the keys are present: the volumes are 50 and 6, tv and radio are off, lamp and
  kitchen light are on.
\<close>

theorem defaults_for_missing_keys:
  "(device_states st ''tv_volume'' = None \<longrightarrow>
      fst (get_volume VolTV st) = Inr [(''tv_volume'', JInt 50)])
   \<and> (device_states st ''radio_volume'' = None \<longrightarrow>
      fst (get_volume VolRadio st) = Inr [(''radio_volume'', JInt 6)])
   \<and> (device_states st (status_key d) = None \<longrightarrow>
      fst (get_status d st) = Inr [(wire_name d, JBool False)])
   \<and> fst (get_volume VolTV init_state) = Inr [(''tv_volume'', JInt 50)]
   \<and> fst (get_volume VolRadio init_state) = Inr [(''radio_volume'', JInt 6)]
   \<and> fst (get_status d init_state) = Inr [(wire_name d, JBool (d = Lamp \<or> d = KitchenLight))]"
proof -
  have v: "read_volume VolTV init_state = 50" "read_volume VolRadio init_state = 6"
    by code_simp+
  have s: "get_device_status init_state (status_key d) = ''on'' \<longleftrightarrow> d = Lamp \<or> d = KitchenLight"
    by (cases d) (simp_all add: get_device_status_def init_state_def)
  show ?thesis
    using v s
    by (simp add: get_volume_def get_status_def read_volume_stored stored_volume_def)
       (simp add: get_device_status_def)
qed

theorem defaults_for_missing_keys_witness:
  "device_states (redis_state Map.empty) ''tv_volume'' = None
   \<and> device_states (redis_state Map.empty) ''radio_volume'' = None
   \<and> device_states (redis_state Map.empty) (status_key Lamp) = None
   \<and> fst (get_volume VolTV (redis_state Map.empty)) = Inr [(''tv_volume'', JInt 50)]
   \<and> fst (get_volume VolRadio (redis_state Map.empty)) = Inr [(''radio_volume'', JInt 6)]
   \<and> fst (get_status Lamp (redis_state Map.empty)) = Inr [(''lamp'', JBool False)]
   \<and> fst (get_status Lamp init_state) = Inr [(''lamp'', JBool True)]"
proof -
  have h: "device_states (redis_state Map.empty) ''tv_volume'' = None"
    "device_states (redis_state Map.empty) ''radio_volume'' = None"
    "device_states (redis_state Map.empty) (status_key Lamp) = None"
    by (simp_all add: redis_state_def)
  from defaults_for_missing_keys [of "redis_state Map.empty" Lamp] h
  show ?thesis by simp
qed

text \<open>
  C5 as stated fails in the initial state of the in-memory store, where the lamp
  status query answers true.
\<close>

theorem initial_status_counterexample:
  "fst (get_status Lamp init_state) = Inr [(''lamp'', JBool True)]
   \<and> fst (get_lamp_status init_state) \<noteq> Inr [(''lamp'', JBool False)]"
  by code_simp

section \<open>Texts from the controller\<close>

text \<open>
  C6, as the code has it. A text from the controller changes the store only if
  splitting it at the colons gives exactly three parts; with fewer or more parts the
  module state stays as it is. With three parts the key made of the first two and the
  third part as value are written, all in lower case, whether or not a part is empty.
\<close>

theorem inbound_three_parts:
  "(length (str_split CHR '':'' data) \<noteq> 3 \<longrightarrow> ws_receive data st = st)
   \<and> (\<forall>p0 p1 p2. str_split CHR '':'' data = [p0, p1, p2] \<longrightarrow>
        ws_receive data st = set_device_status st (lower p0 @ ''_'' @ lower p1) (lower p2))"
  by (auto simp: ws_receive_def Let_def split: list.splits)

theorem inbound_three_parts_witness:
  "length (str_split CHR '':'' ''tv:volume'') \<noteq> 3
   \<and> ws_receive ''tv:volume'' init_state = init_state
   \<and> length (str_split CHR '':'' ''tv:volume:10:extra'') \<noteq> 3
   \<and> ws_receive ''tv:volume:10:extra'' init_state = init_state
   \<and> str_split CHR '':'' ''TV:Volume:-10'' = [''TV'', ''Volume'', ''-10'']
   \<and> ws_receive ''TV:Volume:-10'' init_state = set_device_status init_state ''tv_volume'' ''-10''"
proof -
  have h1: "length (str_split CHR '':'' ''tv:volume'') \<noteq> 3" by code_simp
  have h2: "length (str_split CHR '':'' ''tv:volume:10:extra'') \<noteq> 3" by code_simp
  have h3: "str_split CHR '':'' ''TV:Volume:-10'' = [''TV'', ''Volume'', ''-10'']" by code_simp
  have l: "lower ''TV'' @ ''_'' @ lower ''Volume'' = ''tv_volume''" "lower ''-10'' = ''-10''"
    by code_simp+
  from inbound_three_parts [of "''tv:volume''" init_state]
    inbound_three_parts [of "''tv:volume:10:extra''" init_state]
    inbound_three_parts [of "''TV:Volume:-10''" init_state] h1 h2 h3 l
  show ?thesis by metis
qed

text \<open>
  C6 as stated fails for a text with three parts one of which is empty: it is not
  discarded, the empty value is stored.
\<close>

theorem inbound_empty_part_counterexample:
  "str_split CHR '':'' ''lamp:status:'' = [''lamp'', ''status'', '''']
   \<and> device_states init_state ''lamp_status'' = Some ''on''
   \<and> device_states (ws_receive ''lamp:status:'' init_state) ''lamp_status'' = Some ''''
   \<and> ws_receive ''lamp:status:'' init_state \<noteq> init_state"
proof -
  have a: "str_split CHR '':'' ''lamp:status:'' = [''lamp'', ''status'', '''']" by code_simp
  have b: "device_states init_state ''lamp_status'' = Some ''on''" by code_simp
  have c: "device_states (ws_receive ''lamp:status:'' init_state) ''lamp_status'' = Some ''''"
    by code_simp
  from b c have "ws_receive ''lamp:status:'' init_state \<noteq> init_state" by auto
  with a b c show ?thesis by blast
qed

section \<open>The text of a toggle command\<close>

text \<open>
  C7, as the code has it. A toggle that sends puts \<open>device:status:s\<close> on the wire,
  where the device name and \<open>status\<close> are in lower case and \<open>s\<close> is the desired
  state exactly as the caller gave it; the text is in lower case if and only if the
  caller's state is. The store receives the lower-cased state.
\<close>

theorem toggle_wire_text:
  assumes "unity_ws st = Some ws" and "ws \<notin> broken st"
    and "get_device_status st (status_key d) \<noteq> lower s"
  shows "sent (snd (toggle d s st)) = sent st @ [(ws, wire_name d @ '':status:'' @ s)]
       \<and> lower (wire_name d) = wire_name d
       \<and> lower ''status'' = ''status''
       \<and> (lower (wire_name d @ '':status:'' @ s) = wire_name d @ '':status:'' @ s
            \<longleftrightarrow> lower s = s)
       \<and> device_states (snd (toggle d s st)) (status_key d) = Some (lower s)"
proof -
  have a: "sent (snd (toggle d s st)) = sent st @ [(ws, wire_name d @ '':status:'' @ s)]"
    using assms by (simp add: toggle_sends set_device_status_def)
  have b: "lower ''status'' = ''status''" by code_simp
  have "lower (wire_name d @ '':status:'' @ s) = wire_name d @ '':status:'' @ lower s"
    using lower_append [of "wire_name d" "'':status:'' @ s"] lower_append [of "'':status:''" s]
    by (simp only: lower_wire_name lower_status_infix)
  then have c: "lower (wire_name d @ '':status:'' @ s) = wire_name d @ '':status:'' @ s
            \<longleftrightarrow> lower s = s"
    by (simp only: same_append_eq)
  have e: "device_states (snd (toggle d s st)) (status_key d) = Some (lower s)"
    using assms by (simp add: toggle_sends set_device_status_def)
  from a b c e lower_wire_name show ?thesis by blast
qed

theorem toggle_wire_text_witness:
  "unity_ws (run init_state [Connect 1]) = Some 1
   \<and> 1 \<notin> broken (run init_state [Connect 1])
   \<and> get_device_status (run init_state [Connect 1]) (status_key Lamp) \<noteq> lower ''Off''
   \<and> sent (snd (toggle Lamp ''Off'' (run init_state [Connect 1]))) = [(1, ''lamp:status:Off'')]
   \<and> device_states (snd (toggle Lamp ''Off'' (run init_state [Connect 1]))) ''lamp_status''
        = Some ''off''"
proof -
  define st where "st = run init_state [Connect 1]"
  have h1: "unity_ws st = Some 1" unfolding st_def by code_simp
  have h2: "1 \<notin> broken st" unfolding st_def by code_simp
  have h3: "get_device_status st (status_key Lamp) \<noteq> lower ''Off''" unfolding st_def by code_simp
  have l: "lower ''Off'' = ''off''" by code_simp
  have s: "sent st = []" unfolding st_def by code_simp
  from toggle_wire_text [OF h1 h2 h3] h1 h2 h3
  show ?thesis unfolding st_def [symmetric] by (simp add: l s)
qed

text \<open>
  C7 as stated fails for a desired state with capital letters: they go on the wire
  as given.
\<close>

theorem toggle_wire_counterexample:
  "unity_ws (run init_state [Connect 1]) = Some 1
   \<and> sent (snd (toggle Lamp ''OFF'' (run init_state [Connect 1]))) = [(1, ''lamp:status:OFF'')]
   \<and> lower ''lamp:status:OFF'' \<noteq> ''lamp:status:OFF''"
  by code_simp

section \<open>A send that fails\<close>

text \<open>
  C8, as the code has it. When the registered socket does not take the text, the
  exception of the send leaves the endpoint: a toggle that has something to send and
  every volume change end with that exception, and the module state, the registry
  included, stays as it was.
\<close>

theorem send_failure_escapes:
  assumes "unity_ws st = Some ws" and "ws \<in> broken st"
  shows "(get_device_status st (status_key d) \<noteq> lower s \<longrightarrow> toggle d s st = (Inl SendError, st))
       \<and> change_volume v x t st = (Inl SendError, st)"
  using assms by (simp add: toggle_send_fails change_volume_send_fails)

theorem send_failure_escapes_witness:
  "unity_ws (run init_state [Connect 1, Break 1]) = Some 1
   \<and> 1 \<in> broken (run init_state [Connect 1, Break 1])
   \<and> get_device_status (run init_state [Connect 1, Break 1]) (status_key Lamp) \<noteq> lower ''off''
   \<and> toggle Lamp ''off'' (run init_state [Connect 1, Break 1])
       = (Inl SendError, run init_state [Connect 1, Break 1])
   \<and> change_volume VolTV (Finite 5) ''5.0'' (run init_state [Connect 1, Break 1])
       = (Inl SendError, run init_state [Connect 1, Break 1])"
proof -
  define st where "st = run init_state [Connect 1, Break 1]"
  have h1: "unity_ws st = Some 1" unfolding st_def by code_simp
  have h2: "1 \<in> broken st" unfolding st_def by code_simp
  have h3: "get_device_status st (status_key Lamp) \<noteq> lower ''off''" unfolding st_def by code_simp
  from send_failure_escapes [OF h1 h2, of Lamp "''off''" VolTV "Finite 5" "''5.0''"] h1 h2 h3
  show ?thesis unfolding st_def [symmetric] by blast
qed

text \<open>
  C8 as stated fails: with socket 1 registered and broken, a toggle and a volume
  change end with the exception instead of an error response, and socket 1 stays
  registered.
\<close>

theorem send_failure_counterexample:
  "unity_ws (run init_state [Connect 1, Break 1]) = Some 1
   \<and> 1 \<in> broken (run init_state [Connect 1, Break 1])
   \<and> fst (toggle Lamp ''off'' (run init_state [Connect 1, Break 1])) = Inl SendError
   \<and> unity_ws (snd (toggle Lamp ''off'' (run init_state [Connect 1, Break 1]))) = Some 1
   \<and> fst (change_volume VolTV (Finite 5) ''5.0'' (run init_state [Connect 1, Break 1])) = Inl SendError
   \<and> unity_ws (snd (change_volume VolTV (Finite 5) ''5.0'' (run init_state [Connect 1, Break 1])))
       = Some 1"
  by code_simp

section \<open>Status values\<close>

text \<open>
  C9, as the code has it. In every state reached from the initial one, or from any
  state whose status keys read on or off, by toggles, volume changes, texts from the
  controller and channel events, every status key reads on or off, provided each
  toggle asks for on or off and each text addressed to a status key carries on or
  off, in any letter case.
\<close>

theorem status_on_off_invariant:
  assumes "\<forall>e \<in> set es. expected_input e"
  shows "status_on_off (run init_state es)
       \<and> (status_on_off st \<longrightarrow> status_on_off (run st es))"
  using assms status_on_off_run status_on_off_init by blast

theorem status_on_off_invariant_witness:
  "expected_input (Connect 1)
   \<and> expected_input (Toggle Lamp ''OFF'')
   \<and> expected_input (Receive 1 ''TV:Status:On'')
   \<and> expected_input (Receive 1 ''x:y'')
   \<and> expected_input (Volume VolTV (Finite 5) ''5.0'')
   \<and> status_on_off (run init_state [Connect 1, Toggle Lamp ''OFF'', Receive 1 ''TV:Status:On'',
        Receive 1 ''x:y'', Volume VolTV (Finite 5) ''5.0''])"
proof -
  have h1: "expected_input (Connect 1)" by simp
  have h2: "expected_input (Toggle Lamp ''OFF'')" by code_simp
  have h3: "expected_input (Receive 1 ''TV:Status:On'')" by code_simp
  have h4: "expected_input (Receive 1 ''x:y'')" by code_simp
  have h5: "expected_input (Volume VolTV (Finite 5) ''5.0'')" by simp
  have h: "\<forall>e \<in> set [Connect 1, Toggle Lamp ''OFF'', Receive 1 ''TV:Status:On'', Receive 1 ''x:y'',
               Volume VolTV (Finite 5) ''5.0'']. expected_input e"
    using h1 h2 h3 h4 h5 by simp
  from status_on_off_invariant [OF h] h1 h2 h3 h4 h5 show ?thesis by blast
qed

text \<open>
  C9 as stated fails: a toggle to another word, or a text from the controller with
  another word, stores that word under the status key.
\<close>

theorem status_invariant_counterexample:
  "get_device_status (run init_state [Connect 1, Toggle Lamp ''dim'']) ''lamp_status'' = ''dim''
   \<and> get_device_status (run init_state [Connect 1, Receive 1 ''tv:status:standby'']) ''tv_status''
       = ''standby''
   \<and> \<not> status_on_off (run init_state [Connect 1, Toggle Lamp ''dim''])
   \<and> \<not> status_on_off (run init_state [Connect 1, Receive 1 ''tv:status:standby''])"
  by code_simp

section \<open>Queries\<close>

text \<open>
  C10. The status and volume queries only read: they return the module state they were
  given. A stored volume that does not parse is answered with the device's default and
  stays in the store as it is.
\<close>

theorem queries_read_only:
  "snd (get_status d st) = st
   \<and> snd (get_volume v st) = st
   \<and> (\<forall>t. device_states st (volume_key v) = Some t \<and> py_int t = None \<longrightarrow>
         fst (get_volume v st) = Inr [(volume_key v, JInt (default_volume v))]
         \<and> device_states (snd (get_volume v st)) (volume_key v) = Some t)"
  by (simp add: get_status_def get_volume_def read_volume_stored stored_volume_def)

theorem queries_read_only_witness:
  "device_states (redis_state [''tv_volume'' \<mapsto> ''loud'']) (volume_key VolTV) = Some ''loud''
   \<and> py_int ''loud'' = None
   \<and> fst (get_volume VolTV (redis_state [''tv_volume'' \<mapsto> ''loud'']))
       = Inr [(''tv_volume'', JInt 50)]
   \<and> device_states (snd (get_volume VolTV (redis_state [''tv_volume'' \<mapsto> ''loud''])))
        ''tv_volume'' = Some ''loud''"
proof -
  have h1: "device_states (redis_state [''tv_volume'' \<mapsto> ''loud'']) (volume_key VolTV)
              = Some ''loud''"
    by (simp add: redis_state_def)
  have h2: "py_int ''loud'' = None" by code_simp
  from queries_read_only [of TV "redis_state [''tv_volume'' \<mapsto> ''loud'']" VolTV] h1 h2
  show ?thesis by simp
qed

end
